theory Spec2Isabelle
  imports Main
begin

section \<open>The OF-CONFIG server entry point (src/server/server.c)\<close>

text \<open>
  The file holds three functions: \<open>print_usage\<close>, \<open>signal_handler\<close> and \<open>main\<close>.
  Everything else they touch belongs to the C library or to libnetconf. The model makes
  each call into those libraries an \<open>event\<close> of a trace, in program order, and takes
  what the libraries answer from a record \<open>world\<close>. The values of the constants that the
  missing headers define are fields of a record \<open>platform\<close>.

  Values of C type \<open>int\<close> are modelled as \<open>int\<close>: the program only assigns and
  compares them, it never computes with them, so a statement about every \<open>int\<close> covers
  every 32-bit value.

  Signals are delivered in the poll loop, the one place where \<open>main\<close> reads the flag that
  the handler writes. The handler is installed with every signal blocked while it runs
  (\<open>sigfillset\<close>), so its runs do not overlap.
\<close>

subsection \<open>Constants of the missing headers\<close>

text \<open>
  The verbosity levels of libnetconf, the exit statuses and signal numbers of the C
  library, and its function \<open>atoi\<close>. The theorems hold for every platform; where one
  needs the two verbosity levels to be in order, it says so.
\<close>

record platform =
  NC_VERB_ERROR :: int
  NC_VERB_DEBUG :: int
  EXIT_SUCCESS :: int
  EXIT_FAILURE :: int
  SIGINT :: int
  SIGTERM :: int
  SIGQUIT :: int
  SIGABRT :: int
  SIGKILL :: int
  atoi :: "string \<Rightarrow> int"

text \<open>The two flags that \<open>main\<close> passes to \<open>openlog\<close> and to \<open>nc_init\<close>; a list
  stands for their bitwise disjunction.\<close>

datatype log_option = LOG_PID | LOG_PERROR

datatype nc_init_flag = NC_INIT_ALL | NC_INIT_MULTILAYER

definition CONFDIR :: string where
  "CONFDIR = ''/etc/ofconfig/''"

subsection \<open>Calls into the libraries\<close>

text \<open>
  One constructor for each function called, with the arguments that \<open>main\<close> chooses. The
  logging calls carry their format string; the arguments of the format are not modelled.
  \<open>openlog\<close> gets the facility \<open>LOG_DAEMON\<close> at both call sites, which is left out, like
  the callback table passed to \<open>ncds_new_transapi_static\<close> and the two constant last
  arguments of \<open>ncds_device_init\<close>. A datastore handle is a \<open>nat\<close>.
\<close>

datatype event =
    Fprintf_stdout string
  | Sigaction int
  | Nc_callback_print
  | Nc_verbosity int
  | Daemon int int
  | Openlog string "log_option list"
  | Nc_verb_error string
  | Nc_verb_verbose string
  | Nc_init "nc_init_flag list"
  | Ncds_add_model string
  | Ncds_new_transapi_static string
  | Ncds_file_set_path nat string
  | Ncds_feature_enable string string
  | Ncds_init nat
  | Ncds_consolidate
  | Ncds_device_init int
  | Sleep nat
  | Nc_close

subsection \<open>The process as the operating system sees it\<close>

record proc =
  cwd :: string
  ctty :: bool
  stdio_null :: bool

text \<open>
  \<open>daemon(nochdir, noclose)\<close> of the C library, with the result \<open>ret\<close> it returns: on
  success the process has no controlling terminal any more, its working directory is the
  root directory unless \<open>nochdir\<close> is nonzero, and its standard streams are redirected to
  /dev/null unless \<open>noclose\<close> is nonzero. On failure the model leaves the state as it
  was; no statement below depends on that.
\<close>

definition daemon :: "int \<Rightarrow> int \<Rightarrow> int \<Rightarrow> proc \<Rightarrow> proc" where
  "daemon nochdir noclose ret p =
     (if ret \<noteq> 0 then p
      else \<lparr>cwd = (if nochdir = 0 then ''/'' else cwd p),
            ctty = False,
            stdio_null = (if noclose = 0 then True else stdio_null p)\<rparr>)"

subsection \<open>What the environment answers\<close>

text \<open>
  \<open>getenv_verbose\<close> is the result of \<open>getenv(ENVIRONMENT_VERBOSE)\<close>, \<open>None\<close> for NULL.
  \<open>getopt\<close> is the sequence of results of the successive calls of \<open>getopt_long\<close> before
  it returns -1: the option character and the value of \<open>optarg\<close> at that moment.
  Then come the results of the library calls, in program order;
  \<open>ncds_new_transapi_static_ret\<close> is \<open>None\<close> for NULL.
  \<open>signals\<close> gives, for each turn of the poll loop, the signals delivered after the test
  of the flag and before \<open>sleep\<close> is entered, and those delivered from then until the
  next test. When the list is used up no signal arrives any more.
\<close>

record world =
  argv0 :: string
  getenv_verbose :: "string option"
  getopt :: "(char \<times> string) list"
  proc0 :: proc
  daemon_ret :: int
  nc_init_ret :: int
  ncds_add_model_ret1 :: int
  ncds_new_transapi_static_ret :: "nat option"
  ncds_file_set_path_ret :: int
  ncds_add_model_ret2 :: int
  ncds_feature_enable_ret1 :: int
  ncds_feature_enable_ret2 :: int
  ncds_init_ret :: int
  ncds_consolidate_ret :: int
  ncds_device_init_ret :: int
  signals :: "(int list \<times> int list) list"

text \<open>A run of the process: its exit status (\<open>None\<close> when it never exits), the calls it
  made and the state the operating system holds for it.\<close>

record run =
  status :: "int option"
  trace :: "event list"
  os :: proc

subsection \<open>print_usage\<close>

text \<open>The function ends the process with \<open>exit(0)\<close>: the model returns the status and
  the four lines written.\<close>

definition print_usage :: "string \<Rightarrow> int \<times> event list" where
  "print_usage progname =
     (0, [Fprintf_stdout (''Usage: '' @ progname @ '' [-fh] [-v level]\<newline>''),
          Fprintf_stdout '' -f,--foreground        run in foreground\<newline>'',
          Fprintf_stdout '' -h,--help              display help\<newline>'',
          Fprintf_stdout '' -v,--verbose level     verbose output level\<newline>''])"

subsection \<open>signal_handler\<close>

text \<open>The handler reads and writes the global \<open>mainloop\<close>. \<open>Inl s\<close> is \<open>exit(s)\<close>,
  \<open>Inr m\<close> is a return with \<open>mainloop = m\<close>.\<close>

definition signal_handler :: "platform \<Rightarrow> int \<Rightarrow> int \<Rightarrow> (int + int) \<times> event list" where
  "signal_handler K sig mainloop =
     (if sig = SIGINT K \<or> sig = SIGTERM K \<or> sig = SIGQUIT K \<or> sig = SIGABRT K \<or> sig = SIGKILL K
      then (if mainloop = 0
            then (Inr 1, [Nc_verb_verbose ''Signal %d received.''])
            else (Inl (EXIT_FAILURE K),
                  [Nc_verb_verbose ''Signal %d received.'',
                   Nc_verb_error ''Hey! I need some time, be patient next time!'']))
      else (Inl (EXIT_FAILURE K),
            [Nc_verb_verbose ''Signal %d received.'',
             Nc_verb_error ''Exiting on signal: %d'']))"

text \<open>The handler runs once for each signal delivered, in order, until one run ends the
  process.\<close>

fun deliver :: "platform \<Rightarrow> int list \<Rightarrow> int \<Rightarrow> (int + int) \<times> event list" where
  "deliver K [] mainloop = (Inr mainloop, [])"
| "deliver K (sig # sigs) mainloop =
     (case signal_handler K sig mainloop of
        (Inl s, t) \<Rightarrow> (Inl s, t)
      | (Inr m, t) \<Rightarrow> (case deliver K sigs m of (r, t') \<Rightarrow> (r, t @ t')))"

subsection \<open>main: options\<close>

text \<open>The loop over \<open>getopt_long\<close>, on the pair \<open>(daemonize, verbose)\<close>. \<open>Inl\<close> is the
  exit inside \<open>print_usage\<close>.\<close>

fun parse_options ::
  "platform \<Rightarrow> string \<Rightarrow> (char \<times> string) list \<Rightarrow> int \<times> int \<Rightarrow> (int \<times> event list) + (int \<times> int)"
where
  "parse_options K progname [] (daemonize, verbose) = Inr (daemonize, verbose)"
| "parse_options K progname ((next_option, optarg) # rest) (daemonize, verbose) =
     (if next_option = CHR ''f'' then parse_options K progname rest (0, verbose)
      else if next_option = CHR ''h'' then Inl (print_usage progname)
      else if next_option = CHR ''v'' then parse_options K progname rest (daemonize, atoi K optarg)
      else Inl (print_usage progname))"

text \<open>The argument of the one call of \<open>nc_verbosity\<close> that \<open>main\<close> makes.\<close>

definition normalize :: "platform \<Rightarrow> int \<Rightarrow> int" where
  "normalize K verbose =
     (if verbose < NC_VERB_ERROR K then NC_VERB_ERROR K
      else if verbose > NC_VERB_DEBUG K then NC_VERB_DEBUG K
      else verbose)"

subsection \<open>main: the poll loop\<close>

text \<open>
  \<open>while (!mainloop) sleep(1);\<close> with the signals that arrive meanwhile. Each element of
  the schedule is one turn of the loop: \<open>ahead\<close>, the signals delivered between the test
  of the flag and the call of \<open>sleep\<close>, and \<open>asleep\<close>, those delivered from then until
  the next test. The loop is left when the flag is found set; a run of the handler can end
  the process; and when no signal arrives any more while the flag is 0, the loop is never
  left.
\<close>

datatype loop_end = Loop_left | Exited int | Never_left

fun poll_loop :: "platform \<Rightarrow> (int list \<times> int list) list \<Rightarrow> int \<Rightarrow> loop_end \<times> event list" where
  "poll_loop K [] mainloop =
     (if mainloop \<noteq> 0 then (Loop_left, []) else (Never_left, []))"
| "poll_loop K ((ahead, asleep) # rest) mainloop =
     (if mainloop \<noteq> 0 then (Loop_left, [])
      else (case deliver K ahead mainloop of
              (Inl s, t) \<Rightarrow> (Exited s, t)
            | (Inr m, t) \<Rightarrow>
                (case deliver K asleep m of
                   (Inl s, t') \<Rightarrow> (Exited s, t @ [Sleep 1] @ t')
                 | (Inr m', t') \<Rightarrow>
                     (case poll_loop K rest m' of
                        (e, t'') \<Rightarrow> (e, t @ [Sleep 1] @ t' @ t'')))))"

subsection \<open>main: libnetconf start-up, poll loop and cleanup\<close>

definition x509_yin :: string where
  "x509_yin = CONFDIR @ ''/ietf-netconf-server/ietf-x509-cert-to-name.yin''"

definition server_yin :: string where
  "server_yin = CONFDIR @ ''/ietf-netconf-server/ietf-netconf-server.yin''"

definition datastore_xml :: string where
  "datastore_xml = CONFDIR @ ''/ietf-netconf-server/datastore.xml''"

text \<open>The label \<open>cleanup\<close>: \<open>nc_close\<close>, then \<open>return (retval)\<close>.\<close>

definition cleanup :: "int \<Rightarrow> event list \<Rightarrow> int option \<times> event list" where
  "cleanup retval t = (Some retval, t @ [Nc_close])"

text \<open>From \<open>nc_init\<close> to the end of \<open>main\<close>.\<close>

definition bootstrap :: "platform \<Rightarrow> world \<Rightarrow> int option \<times> event list" where
  "bootstrap K W =
     (let t1 = [Nc_init [NC_INIT_ALL, NC_INIT_MULTILAYER]] in
      if nc_init_ret W < 0
      then (Some (EXIT_FAILURE K), t1 @ [Nc_verb_error ''libnetconf initialization failed.''])
      else
     (let t2 = t1 @ [Ncds_add_model x509_yin, Ncds_new_transapi_static server_yin] in
      case ncds_new_transapi_static_ret W of
        None \<Rightarrow>
          cleanup (EXIT_FAILURE K)
            (t2 @ [Nc_verb_error ''Creating ietf-netconf-server datastore failed.''])
      | Some server \<Rightarrow>
     (let t3 = t2 @ [Ncds_file_set_path server datastore_xml,
                     Ncds_add_model x509_yin,
                     Ncds_feature_enable ''ietf-netconf-server'' ''ssh'',
                     Ncds_feature_enable ''ietf-netconf-server'' ''inbound-ssh'',
                     Ncds_init server];
          server_id = ncds_init_ret W in
      if server_id < 0
      then cleanup (EXIT_FAILURE K)
             (t3 @ [Nc_verb_error
                      ''Initiating ietf-netconf-server datastore failed (error code %d).''])
      else
     (let t4 = t3 @ [Ncds_consolidate] in
      if ncds_consolidate_ret W \<noteq> 0
      then cleanup (EXIT_FAILURE K) (t4 @ [Nc_verb_error ''Consoidating data models failed.''])
      else
     (let t5 = t4 @ [Ncds_device_init server_id] in
      if ncds_device_init_ret W \<noteq> 0
      then cleanup (EXIT_FAILURE K)
             (t5 @ [Nc_verb_error ''Initiating ietf-netconf-server module failed.''])
      else
     (let t6 = t5 @ [Nc_verb_verbose ''OF-CONFIG server successfully initialized.''] in
      (case poll_loop K (signals W) 0 of
         (Loop_left, t) \<Rightarrow> cleanup (EXIT_SUCCESS K) (t6 @ t)
       | (Exited s, t) \<Rightarrow> (Some s, t6 @ t)
       | (Never_left, t) \<Rightarrow> (None, t6 @ t))))))))"

subsection \<open>main\<close>

definition install_handlers :: "platform \<Rightarrow> event list" where
  "install_handlers K =
     [Sigaction (SIGINT K), Sigaction (SIGQUIT K), Sigaction (SIGABRT K),
      Sigaction (SIGTERM K), Sigaction (SIGKILL K)]"

definition main :: "platform \<Rightarrow> world \<Rightarrow> run" where
  "main K W =
     (let verbose = (case getenv_verbose W of
                       None \<Rightarrow> NC_VERB_ERROR K
                     | Some aux_string \<Rightarrow> atoi K aux_string)
      in case parse_options K (argv0 W) (getopt W) (1, verbose) of
           Inl (s, t) \<Rightarrow> \<lparr>status = Some s, trace = t, os = proc0 W\<rparr>
         | Inr (daemonize, verbose) \<Rightarrow>
             let t0 = install_handlers K @ [Nc_callback_print, Nc_verbosity (normalize K verbose)]
             in if daemonize = 1
                then (if daemon_ret W \<noteq> 0
                      then \<lparr>status = Some (EXIT_FAILURE K),
                            trace = t0 @ [Daemon 0 0,
                                          Nc_verb_error ''Going to background failed (%s)''],
                            os = daemon 0 0 (daemon_ret W) (proc0 W)\<rparr>
                      else (case bootstrap K W of
                              (s, t) \<Rightarrow>
                                \<lparr>status = s,
                                 trace = t0 @ [Daemon 0 0, Openlog ''netopeer-server'' [LOG_PID]] @ t,
                                 os = daemon 0 0 (daemon_ret W) (proc0 W)\<rparr>))
                else (case bootstrap K W of
                        (s, t) \<Rightarrow>
                          \<lparr>status = s,
                           trace = t0 @ [Openlog ''netopeer-server'' [LOG_PID, LOG_PERROR]] @ t,
                           os = proc0 W\<rparr>))"

subsection \<open>Reading a trace\<close>

text \<open>The C function that an event is a call of.\<close>

fun callee :: "event \<Rightarrow> string" where
  "callee (Fprintf_stdout _) = ''fprintf''"
| "callee (Sigaction _) = ''sigaction''"
| "callee Nc_callback_print = ''nc_callback_print''"
| "callee (Nc_verbosity _) = ''nc_verbosity''"
| "callee (Daemon _ _) = ''daemon''"
| "callee (Openlog _ _) = ''openlog''"
| "callee (Nc_verb_error _) = ''nc_verb_error''"
| "callee (Nc_verb_verbose _) = ''nc_verb_verbose''"
| "callee (Nc_init _) = ''nc_init''"
| "callee (Ncds_add_model _) = ''ncds_add_model''"
| "callee (Ncds_new_transapi_static _) = ''ncds_new_transapi_static''"
| "callee (Ncds_file_set_path _ _) = ''ncds_file_set_path''"
| "callee (Ncds_feature_enable _ _) = ''ncds_feature_enable''"
| "callee (Ncds_init _) = ''ncds_init''"
| "callee Ncds_consolidate = ''ncds_consolidate''"
| "callee (Ncds_device_init _) = ''ncds_device_init''"
| "callee (Sleep _) = ''sleep''"
| "callee Nc_close = ''nc_close''"

text \<open>The calls of one function in a trace, and the part of a trace that starts at the
  call of \<open>nc_init\<close>.\<close>

definition calls :: "string \<Rightarrow> event list \<Rightarrow> event list" where
  "calls f t = filter (\<lambda>e. callee e = f) t"

definition from_nc_init :: "event list \<Rightarrow> event list" where
  "from_nc_init t = dropWhile (\<lambda>e. callee e \<noteq> ''nc_init'') t"

subsection \<open>Vocabulary of the specification\<close>

text \<open>The five signals that the \<open>switch\<close> of the handler names.\<close>

definition termination_signal :: "platform \<Rightarrow> int \<Rightarrow> bool" where
  "termination_signal K sig = (sig \<in> {SIGINT K, SIGTERM K, SIGQUIT K, SIGABRT K, SIGKILL K})"

text \<open>
  The options that \<open>getopt_long\<close> reports for a command line: \<open>-f\<close> and \<open>--foreground\<close>
  are reported as \<open>f\<close>, \<open>-h\<close> and \<open>--help\<close> as \<open>h\<close>, \<open>-v\<close> and \<open>--verbose\<close> as \<open>v\<close>
  with their argument in \<open>optarg\<close>, anything it does not recognize as another character.
  A command line is \<open>accepted\<close> when the option loop comes to its end, \<open>foreground\<close> when
  it asks not to daemonize; \<open>verbose_args\<close> are the arguments of its \<open>-v\<close> options.
\<close>

definition accepted :: "(char \<times> string) list \<Rightarrow> bool" where
  "accepted opts = (\<forall>opt \<in> set opts. fst opt = CHR ''f'' \<or> fst opt = CHR ''v'')"

definition foreground :: "(char \<times> string) list \<Rightarrow> bool" where
  "foreground opts = (CHR ''f'' \<in> fst ` set opts)"

definition verbose_args :: "(char \<times> string) list \<Rightarrow> string list" where
  "verbose_args opts = map snd (filter (\<lambda>opt. fst opt = CHR ''v'') opts)"

text \<open>The verbosity before normalization, as section 6 of the specification gives it: the
  argument of the last \<open>-v\<close>, else the environment variable, else the default.\<close>

definition verbose_level :: "platform \<Rightarrow> world \<Rightarrow> int" where
  "verbose_level K W =
     (if verbose_args (getopt W) \<noteq> [] then atoi K (last (verbose_args (getopt W)))
      else case getenv_verbose W of None \<Rightarrow> NC_VERB_ERROR K | Some s \<Rightarrow> atoi K s)"

text \<open>The process reaches the call of \<open>nc_init\<close>: the option loop ends, and the process
  stays in the foreground or \<open>daemon\<close> succeeds.\<close>

definition starts_up :: "world \<Rightarrow> bool" where
  "starts_up W = (accepted (getopt W) \<and> (foreground (getopt W) \<or> daemon_ret W = 0))"

text \<open>The calls from \<open>nc_init\<close> to \<open>ncds_init\<close>, for the datastore handle \<open>server\<close>.\<close>

definition calls_to_ncds_init :: "nat \<Rightarrow> event list" where
  "calls_to_ncds_init server =
     [Nc_init [NC_INIT_ALL, NC_INIT_MULTILAYER],
      Ncds_add_model x509_yin,
      Ncds_new_transapi_static server_yin,
      Ncds_file_set_path server datastore_xml,
      Ncds_add_model x509_yin,
      Ncds_feature_enable ''ietf-netconf-server'' ''ssh'',
      Ncds_feature_enable ''ietf-netconf-server'' ''inbound-ssh'',
      Ncds_init server]"

text \<open>What \<open>main\<close> does before \<open>nc_init\<close>, when it gets there.\<close>

definition preamble :: "platform \<Rightarrow> world \<Rightarrow> event list" where
  "preamble K W =
     install_handlers K @
     [Nc_callback_print, Nc_verbosity (normalize K (verbose_level K W))] @
     (if foreground (getopt W) then [Openlog ''netopeer-server'' [LOG_PID, LOG_PERROR]]
      else [Daemon 0 0, Openlog ''netopeer-server'' [LOG_PID]])"

subsection \<open>The command line as getopt_long reads it\<close>

text \<open>
  \<open>getopt_long\<close> of the GNU C library for the option string \<open>fhv:\<close> and the table of
  long options of \<open>main\<close>, on the words that follow \<open>argv[0]\<close>, with POSIXLY_CORRECT
  unset. The result is the sequence of options reported before -1, each with \<open>optarg\<close>.
  A word \<open>--\<close> ends the options. A longer word that starts with \<open>--\<close> is a long option:
  its name, up to an \<open>=\<close>, may be abbreviated, and \<open>verbose\<close> takes its argument after
  the \<open>=\<close> or else the next word, whatever that word is. Another word of two characters
  or more that starts with \<open>-\<close> is a group of short options, in which \<open>v\<close> takes the rest
  of the word as its argument or else the next word. Any other word is not an option and
  is passed over. What is not recognized, or lacks its argument, or has one it may not
  have, is reported as \<open>?\<close>.
\<close>

definition long_option :: "string \<Rightarrow> (char \<times> bool) option" where
  "long_option name =
     (if name = [] then None
      else if take (length name) ''foreground'' = name then Some (CHR ''f'', False)
      else if take (length name) ''help'' = name then Some (CHR ''h'', False)
      else if take (length name) ''verbose'' = name then Some (CHR ''v'', True)
      else None)"

text \<open>The characters of a group of short options, with the next word if there is one: the
  options reported, and whether the next word was taken as the argument of \<open>v\<close>.\<close>

fun short_options :: "string \<Rightarrow> string option \<Rightarrow> (char \<times> string) list \<times> bool" where
  "short_options [] next_word = ([], False)"
| "short_options (c # cs) next_word =
     (if c = CHR ''v''
      then (if cs \<noteq> [] then ([(CHR ''v'', cs)], False)
            else (case next_word of
                    None \<Rightarrow> ([(CHR ''?'', [])], False)
                  | Some a \<Rightarrow> ([(CHR ''v'', a)], True)))
      else (case short_options cs next_word of
              (r, used) \<Rightarrow>
                ((if c = CHR ''f'' \<or> c = CHR ''h'' then c else CHR ''?'', []) # r, used)))"

function getopt_long :: "string list \<Rightarrow> (char \<times> string) list" where
  "getopt_long [] = []"
| "getopt_long (w # ws) =
     (if w = ''--'' then []
      else if take 2 w = ''--'' then
        (let body = drop 2 w;
             name = takeWhile (\<lambda>c. c \<noteq> CHR ''='') body;
             value = drop 1 (dropWhile (\<lambda>c. c \<noteq> CHR ''='') body)
         in case long_option name of
              None \<Rightarrow> (CHR ''?'', []) # getopt_long ws
            | Some (c, has_arg) \<Rightarrow>
                if CHR ''='' \<in> set body
                then (if has_arg then (c, value) else (CHR ''?'', [])) # getopt_long ws
                else if has_arg
                then (case ws of
                        [] \<Rightarrow> [(CHR ''?'', [])]
                      | a # ws' \<Rightarrow> (c, a) # getopt_long ws')
                else (c, []) # getopt_long ws)
      else if take 1 w = ''-'' \<and> 2 \<le> length w then
        (case short_options (drop 1 w) (case ws of [] \<Rightarrow> None | a # _ \<Rightarrow> Some a) of
           (r, used) \<Rightarrow> r @ getopt_long (if used then drop 1 ws else ws))
      else getopt_long ws)"
  by pat_completeness auto
termination
  by (relation "measure length") auto

declare getopt_long.simps [simp del]

text \<open>
  An argument list written with the plain forms of the options, in which a word \<open>-h\<close> or
  \<open>--help\<close> comes where an option is expected: before it stand only \<open>-f\<close>,
  \<open>--foreground\<close>, and \<open>-v\<close> or \<open>--verbose\<close> each followed by the word that is its
  level.
\<close>

fun help_in_option_position :: "string list \<Rightarrow> bool" where
  "help_in_option_position [] = False"
| "help_in_option_position [w] = (w = ''-h'' \<or> w = ''--help'')"
| "help_in_option_position (w # a # ws) =
     (if w = ''-h'' \<or> w = ''--help'' then True
      else if w = ''-f'' \<or> w = ''--foreground'' then help_in_option_position (a # ws)
      else if w = ''-v'' \<or> w = ''--verbose'' then help_in_option_position ws
      else False)"

subsection \<open>A concrete platform and concrete runs\<close>

text \<open>
  The values of Linux and of libnetconf, and \<open>atoi\<close> on the strings whose value fits an
  \<open>int\<close>: white space, an optional sign, then decimal digits up to the first other
  character.
\<close>

definition is_space :: "char \<Rightarrow> bool" where
  "is_space c = (c = CHR '' '' \<or> (9 \<le> (of_char c :: nat) \<and> (of_char c :: nat) \<le> 13))"

fun digits :: "int \<Rightarrow> string \<Rightarrow> int" where
  "digits acc [] = acc"
| "digits acc (c # cs) =
     (if 48 \<le> (of_char c :: nat) \<and> (of_char c :: nat) \<le> 57
      then digits (acc * 10 + int (of_char c - 48)) cs
      else acc)"

definition atoi_c :: "string \<Rightarrow> int" where
  "atoi_c s =
     (case dropWhile is_space s of
        [] \<Rightarrow> 0
      | c # cs \<Rightarrow>
          if c = CHR ''-'' then - digits 0 cs
          else if c = CHR ''+'' then digits 0 cs
          else digits 0 (c # cs))"

definition linux :: platform where
  "linux = \<lparr>NC_VERB_ERROR = 0, NC_VERB_DEBUG = 3, EXIT_SUCCESS = 0, EXIT_FAILURE = 1,
            SIGINT = 2, SIGTERM = 15, SIGQUIT = 3, SIGABRT = 6, SIGKILL = 9, atoi = atoi_c\<rparr>"

text \<open>A run without options in which every library call succeeds, no signal arrives during
  the first second and SIGTERM arrives during the second one.\<close>

definition plain_world :: world where
  "plain_world =
     \<lparr>argv0 = ''ofc-server'', getenv_verbose = None, getopt = [],
      proc0 = \<lparr>cwd = ''/home/ofc'', ctty = True, stdio_null = False\<rparr>,
      daemon_ret = 0, nc_init_ret = 0, ncds_add_model_ret1 = 0,
      ncds_new_transapi_static_ret = Some 1, ncds_file_set_path_ret = 0,
      ncds_add_model_ret2 = 0, ncds_feature_enable_ret1 = 0, ncds_feature_enable_ret2 = 0,
      ncds_init_ret = 1, ncds_consolidate_ret = 0, ncds_device_init_ret = 0,
      signals = [([], []), ([], [15])]\<rparr>"

section \<open>Lemmas\<close>

subsection \<open>The option loop and the verbosity\<close>

lemma normalize_clamp:
  "NC_VERB_ERROR K \<le> NC_VERB_DEBUG K \<Longrightarrow>
   normalize K v = max (NC_VERB_ERROR K) (min (NC_VERB_DEBUG K) v)"
  by (simp add: normalize_def)

lemma parse_options_accepted:
  "accepted opts \<Longrightarrow>
   parse_options K p opts (d, v) =
     Inr (if foreground opts then 0 else d,
          if verbose_args opts \<noteq> [] then atoi K (last (verbose_args opts)) else v)"
proof (induction opts arbitrary: d v)
  case Nil
  then show ?case by (simp add: foreground_def verbose_args_def)
next
  case (Cons opt opts)
  obtain c a where opt: "opt = (c, a)" by (cases opt)
  from Cons.prems have rest: "accepted opts" and c: "c = CHR ''f'' \<or> c = CHR ''v''"
    by (simp_all add: accepted_def opt)
  from c show ?case
  proof
    assume "c = CHR ''f''"
    then show ?thesis
      using Cons.IH [OF rest, of 0 v] by (simp add: opt foreground_def verbose_args_def)
  next
    assume "c = CHR ''v''"
    then show ?thesis
      using Cons.IH [OF rest, of d "atoi K a"]
      by (simp add: opt foreground_def verbose_args_def)
  qed
qed

lemma parse_options_rejected:
  "\<not> accepted opts \<Longrightarrow> parse_options K p opts (d, v) = Inl (print_usage p)"
proof (induction opts arbitrary: d v)
  case Nil
  then show ?case by (simp add: accepted_def)
next
  case (Cons opt opts)
  obtain c a where opt: "opt = (c, a)" by (cases opt)
  show ?case
  proof (cases "c = CHR ''f'' \<or> c = CHR ''v''")
    case True
    with Cons.prems have "\<not> accepted opts" by (auto simp: accepted_def opt)
    with True Cons.IH show ?thesis by (auto simp: opt)
  next
    case False
    then show ?thesis by (simp add: opt)
  qed
qed

subsection \<open>The command line\<close>

lemma getopt_long_help:
  "getopt_long (''-h'' # ws) = (CHR ''h'', []) # getopt_long ws"
  "getopt_long (''--help'' # ws) = (CHR ''h'', []) # getopt_long ws"
  by (simp_all add: getopt_long.simps long_option_def)

lemma getopt_long_foreground:
  "getopt_long (''-f'' # ws) = (CHR ''f'', []) # getopt_long ws"
  "getopt_long (''--foreground'' # ws) = (CHR ''f'', []) # getopt_long ws"
  by (simp_all add: getopt_long.simps long_option_def)

lemma getopt_long_verbose:
  "getopt_long (''-v'' # a # ws) = (CHR ''v'', a) # getopt_long ws"
  "getopt_long (''--verbose'' # a # ws) = (CHR ''v'', a) # getopt_long ws"
  by (simp_all add: getopt_long.simps long_option_def)


lemma help_reported:
  "help_in_option_position argv \<Longrightarrow> CHR ''h'' \<in> fst ` set (getopt_long argv)"
proof (induction argv rule: help_in_option_position.induct)
  case 1
  then show ?case by simp
next
  case (2 w)
  then have "w = ''-h'' \<or> w = ''--help''" by simp
  then show ?case by (auto simp: getopt_long_help)
next
  case (3 w a ws)
  from "3.prems" consider
      (hw) "w = ''-h'' \<or> w = ''--help''"
    | (fw) "w = ''-f'' \<or> w = ''--foreground''" "help_in_option_position (a # ws)"
    | (vw) "w = ''-v'' \<or> w = ''--verbose''" "help_in_option_position ws"
    by (auto split: if_splits)
  then show ?case
  proof cases
    case hw
    then show ?thesis by (auto simp: getopt_long_help)
  next
    case fw
    from fw(1) have "\<not> (w = ''-h'' \<or> w = ''--help'')" by auto
    from "3.IH"(1) [OF this fw(1) fw(2)] fw(1) show ?thesis
      by (auto simp: getopt_long_foreground)
  next
    case vw
    from vw(1) have n1: "\<not> (w = ''-h'' \<or> w = ''--help'')"
      and n2: "\<not> (w = ''-f'' \<or> w = ''--foreground'')" by auto
    from "3.IH"(2) [OF n1 n2 vw(1) vw(2)] vw(1) show ?thesis
      by (auto simp: getopt_long_verbose)
  qed
qed

subsection \<open>The handler and the poll loop\<close>

lemma signal_handler_callee:
  "e \<in> set (snd (signal_handler K sig m)) \<Longrightarrow>
   callee e = ''nc_verb_verbose'' \<or> callee e = ''nc_verb_error''"
  by (auto simp: signal_handler_def split: if_splits)

lemma signal_handler_first:
  "termination_signal K sig \<Longrightarrow>
   signal_handler K sig 0 = (Inr 1, [Nc_verb_verbose ''Signal %d received.''])"
  by (auto simp: signal_handler_def termination_signal_def)

lemma deliver_callee:
  "e \<in> set (snd (deliver K sigs m)) \<Longrightarrow>
   callee e = ''nc_verb_verbose'' \<or> callee e = ''nc_verb_error''"
proof (induction sigs arbitrary: m)
  case Nil
  then show ?case by simp
next
  case (Cons sig sigs)
  obtain r t where h: "signal_handler K sig m = (r, t)" by (cases "signal_handler K sig m")
  show ?case
  proof (cases r)
    case (Inl s)
    with Cons.prems h signal_handler_callee [of e K sig m] show ?thesis by simp
  next
    case (Inr m')
    obtain r' t' where d: "deliver K sigs m' = (r', t')" by (cases "deliver K sigs m'")
    from Cons.prems h Inr d have "e \<in> set t \<or> e \<in> set t'" by simp
    then show ?thesis
      using signal_handler_callee [of e K sig m] Cons.IH [of m'] h d by auto
  qed
qed

lemma deliver_flag_set:
  "m \<noteq> 0 \<Longrightarrow> sigs \<noteq> [] \<Longrightarrow> \<exists>t. deliver K sigs m = (Inl (EXIT_FAILURE K), t)"
  by (cases sigs) (auto simp: signal_handler_def)

lemma deliver_flag_unset:
  "sigs \<noteq> [] \<Longrightarrow>
   (\<exists>t. deliver K sigs 0 = (Inl (EXIT_FAILURE K), t)) \<or> (\<exists>t. deliver K sigs 0 = (Inr 1, t))"
proof (cases sigs)
  case Nil
  assume "sigs \<noteq> []"
  with Nil show ?thesis by simp
next
  case (Cons sig rest)
  show ?thesis
  proof (cases "termination_signal K sig")
    case False
    then show ?thesis by (simp add: Cons signal_handler_def termination_signal_def)
  next
    case True
    show ?thesis
    proof (cases "rest = []")
      case True
      with \<open>termination_signal K sig\<close> show ?thesis
        by (simp add: Cons signal_handler_first)
    next
      case False
      from deliver_flag_set [OF _ False, of 1 K] obtain t
        where "deliver K rest 1 = (Inl (EXIT_FAILURE K), t)" by auto
      with True show ?thesis by (simp add: Cons signal_handler_first)
    qed
  qed
qed

lemma deliver_no_sleep: "count_list (snd (deliver K sigs m)) (Sleep 1) = 0"
  using deliver_callee [of "Sleep 1" K sigs m] by (auto simp: count_list_0_iff)

lemma poll_loop_callee:
  "e \<in> set (snd (poll_loop K sched m)) \<Longrightarrow>
   callee e = ''nc_verb_verbose'' \<or> callee e = ''nc_verb_error'' \<or> callee e = ''sleep''"
proof (induction sched arbitrary: m)
  case Nil
  then show ?case by (simp split: if_splits)
next
  case (Cons turn sched)
  obtain ahead asleep where turn: "turn = (ahead, asleep)" by (cases turn)
  show ?case
  proof (cases "m = 0")
    case False
    with Cons.prems turn show ?thesis by simp
  next
    case True
    obtain r t where a: "deliver K ahead 0 = (r, t)" by (cases "deliver K ahead 0")
    have t: "\<And>x. x \<in> set t \<Longrightarrow> callee x = ''nc_verb_verbose'' \<or> callee x = ''nc_verb_error''"
      using deliver_callee [of _ K ahead 0] a by simp
    show ?thesis
    proof (cases r)
      case (Inl s)
      with Cons.prems True turn a have "e \<in> set t" by simp
      with t show ?thesis by blast
    next
      case (Inr m1)
      obtain r' t' where b: "deliver K asleep m1 = (r', t')" by (cases "deliver K asleep m1")
      have t': "\<And>x. x \<in> set t' \<Longrightarrow> callee x = ''nc_verb_verbose'' \<or> callee x = ''nc_verb_error''"
        using deliver_callee [of _ K asleep m1] b by simp
      show ?thesis
      proof (cases r')
        case (Inl s)
        with Cons.prems True turn a Inr b have "e \<in> set t \<or> e = Sleep 1 \<or> e \<in> set t'" by auto
        with t t' show ?thesis by auto
      next
        case (Inr m2)
        obtain e' t'' where c: "poll_loop K sched m2 = (e', t'')" by (cases "poll_loop K sched m2")
        have "e \<in> set t \<or> e = Sleep 1 \<or> e \<in> set t' \<or> e \<in> set t''"
          using Cons.prems True turn a \<open>r = Inr m1\<close> b Inr c by auto
        then show ?thesis using t t' Cons.IH [of m2] c by auto
      qed
    qed
  qed
qed

lemma poll_loop_flag_set:
  "mainloop \<noteq> 0 \<Longrightarrow> poll_loop K sched mainloop = (Loop_left, [])"
  by (cases sched) auto

lemma poll_loop_quiet_turn:
  "poll_loop K (([], []) # rest) 0 =
     (fst (poll_loop K rest 0), Sleep 1 # snd (poll_loop K rest 0))"
  by (simp split: prod.splits)

lemma poll_loop_quiet_turns:
  "poll_loop K (replicate n ([], []) @ rest) 0 =
     (fst (poll_loop K rest 0), replicate n (Sleep 1) @ snd (poll_loop K rest 0))"
  by (induction n) (simp_all add: poll_loop_quiet_turn)

lemma poll_loop_busy_turn:
  assumes "ahead \<noteq> [] \<or> asleep \<noteq> []"
  shows "fst (poll_loop K ((ahead, asleep) # rest) 0) \<noteq> Never_left \<and>
         count_list (snd (poll_loop K ((ahead, asleep) # rest) 0)) (Sleep 1) \<le> 1"
proof (cases "ahead = []")
  case True
  with assms have "asleep \<noteq> []" by simp
  from deliver_flag_unset [OF this, of K] deliver_no_sleep [of K asleep 0] True
  show ?thesis by (auto simp: poll_loop_flag_set)
next
  case False
  from deliver_flag_unset [OF False, of K]
  consider t where "deliver K ahead 0 = (Inl (EXIT_FAILURE K), t)"
    | t where "deliver K ahead 0 = (Inr 1, t)" by blast
  then show ?thesis
  proof cases
    case 1
    with deliver_no_sleep [of K ahead 0] show ?thesis by simp
  next
    case 2
    show ?thesis
    proof (cases "asleep = []")
      case True
      with 2 deliver_no_sleep [of K ahead 0] show ?thesis by (simp add: poll_loop_flag_set)
    next
      case False
      from deliver_flag_set [OF _ False, of 1 K] obtain t'
        where "deliver K asleep 1 = (Inl (EXIT_FAILURE K), t')" by auto
      with 2 deliver_no_sleep [of K ahead 0] deliver_no_sleep [of K asleep 1]
      show ?thesis by simp
    qed
  qed
qed

lemma count_list_replicate_same: "count_list (replicate n e) e = n"
  by (induction n) simp_all

lemma poll_loop_latency:
  assumes "ahead \<noteq> [] \<or> asleep \<noteq> []"
  shows "fst (poll_loop K (replicate n ([], []) @ (ahead, asleep) # rest) 0) \<noteq> Never_left \<and>
         count_list (snd (poll_loop K (replicate n ([], []) @ (ahead, asleep) # rest) 0)) (Sleep 1)
           \<le> n + 1"
proof -
  have eq: "poll_loop K (replicate n ([], []) @ (ahead, asleep) # rest) 0 =
              (fst (poll_loop K ((ahead, asleep) # rest) 0),
               replicate n (Sleep 1) @ snd (poll_loop K ((ahead, asleep) # rest) 0))"
    by (rule poll_loop_quiet_turns)
  from poll_loop_busy_turn [OF assms, of K rest] show ?thesis
    unfolding eq by (simp only: fst_conv snd_conv count_list_append count_list_replicate_same) simp
qed

subsection \<open>The start-up of libnetconf, case by case\<close>

lemma bootstrap_nc_init_failed:
  "nc_init_ret W < 0 \<Longrightarrow>
   bootstrap K W =
     (Some (EXIT_FAILURE K),
      [Nc_init [NC_INIT_ALL, NC_INIT_MULTILAYER],
       Nc_verb_error ''libnetconf initialization failed.''])"
  by (simp add: bootstrap_def)

lemma bootstrap_new_failed:
  "0 \<le> nc_init_ret W \<Longrightarrow> ncds_new_transapi_static_ret W = None \<Longrightarrow>
   bootstrap K W =
     (Some (EXIT_FAILURE K),
      [Nc_init [NC_INIT_ALL, NC_INIT_MULTILAYER],
       Ncds_add_model x509_yin,
       Ncds_new_transapi_static server_yin,
       Nc_verb_error ''Creating ietf-netconf-server datastore failed.'',
       Nc_close])"
  by (simp add: bootstrap_def cleanup_def)

lemma bootstrap_ncds_init_failed:
  "0 \<le> nc_init_ret W \<Longrightarrow> ncds_new_transapi_static_ret W = Some server \<Longrightarrow>
   ncds_init_ret W < 0 \<Longrightarrow>
   bootstrap K W =
     (Some (EXIT_FAILURE K),
      calls_to_ncds_init server @
      [Nc_verb_error ''Initiating ietf-netconf-server datastore failed (error code %d).'',
       Nc_close])"
  by (simp add: bootstrap_def cleanup_def calls_to_ncds_init_def)

lemma bootstrap_consolidate_failed:
  "0 \<le> nc_init_ret W \<Longrightarrow> ncds_new_transapi_static_ret W = Some server \<Longrightarrow>
   0 \<le> ncds_init_ret W \<Longrightarrow> ncds_consolidate_ret W \<noteq> 0 \<Longrightarrow>
   bootstrap K W =
     (Some (EXIT_FAILURE K),
      calls_to_ncds_init server @
      [Ncds_consolidate, Nc_verb_error ''Consoidating data models failed.'', Nc_close])"
  by (simp add: bootstrap_def cleanup_def calls_to_ncds_init_def)

lemma bootstrap_device_init_failed:
  "0 \<le> nc_init_ret W \<Longrightarrow> ncds_new_transapi_static_ret W = Some server \<Longrightarrow>
   0 \<le> ncds_init_ret W \<Longrightarrow> ncds_consolidate_ret W = 0 \<Longrightarrow> ncds_device_init_ret W \<noteq> 0 \<Longrightarrow>
   bootstrap K W =
     (Some (EXIT_FAILURE K),
      calls_to_ncds_init server @
      [Ncds_consolidate, Ncds_device_init (ncds_init_ret W),
       Nc_verb_error ''Initiating ietf-netconf-server module failed.'', Nc_close])"
  by (simp add: bootstrap_def cleanup_def calls_to_ncds_init_def)

lemma bootstrap_succeeded:
  "0 \<le> nc_init_ret W \<Longrightarrow> ncds_new_transapi_static_ret W = Some server \<Longrightarrow>
   0 \<le> ncds_init_ret W \<Longrightarrow> ncds_consolidate_ret W = 0 \<Longrightarrow> ncds_device_init_ret W = 0 \<Longrightarrow>
   bootstrap K W =
     (case fst (poll_loop K (signals W) 0) of
        Loop_left \<Rightarrow> Some (EXIT_SUCCESS K)
      | Exited s \<Rightarrow> Some s
      | Never_left \<Rightarrow> None,
      calls_to_ncds_init server @
      [Ncds_consolidate, Ncds_device_init (ncds_init_ret W),
       Nc_verb_verbose ''OF-CONFIG server successfully initialized.''] @
      snd (poll_loop K (signals W) 0) @
      (if fst (poll_loop K (signals W) 0) = Loop_left then [Nc_close] else []))"
proof -
  assume ok: "0 \<le> nc_init_ret W" "ncds_new_transapi_static_ret W = Some server"
    "0 \<le> ncds_init_ret W" "ncds_consolidate_ret W = 0" "ncds_device_init_ret W = 0"
  obtain e t where p: "poll_loop K (signals W) 0 = (e, t)"
    by (cases "poll_loop K (signals W) 0")
  from ok p show ?thesis
    by (cases e) (simp_all add: bootstrap_def cleanup_def calls_to_ncds_init_def Let_def)
qed

lemma bootstrap_callee:
  "e \<in> set (snd (bootstrap K W)) \<Longrightarrow>
   callee e \<in> {''nc_init'', ''ncds_add_model'', ''ncds_new_transapi_static'',
                ''ncds_file_set_path'', ''ncds_feature_enable'', ''ncds_init'',
                ''ncds_consolidate'', ''ncds_device_init'', ''nc_verb_error'',
                ''nc_verb_verbose'', ''sleep'', ''nc_close''}"
proof -
  assume e: "e \<in> set (snd (bootstrap K W))"
  show ?thesis
  proof (cases "nc_init_ret W < 0")
    case True
    with e show ?thesis by (auto simp: bootstrap_nc_init_failed)
  next
    case init: False
    show ?thesis
    proof (cases "ncds_new_transapi_static_ret W")
      case None
      with init e show ?thesis by (auto simp: bootstrap_new_failed)
    next
      case (Some server)
      consider "ncds_init_ret W < 0"
        | "0 \<le> ncds_init_ret W" "ncds_consolidate_ret W \<noteq> 0"
        | "0 \<le> ncds_init_ret W" "ncds_consolidate_ret W = 0" "ncds_device_init_ret W \<noteq> 0"
        | "0 \<le> ncds_init_ret W" "ncds_consolidate_ret W = 0" "ncds_device_init_ret W = 0"
        by linarith
      then show ?thesis
      proof cases
        case 1
        with init Some e show ?thesis
          by (auto simp: bootstrap_ncds_init_failed calls_to_ncds_init_def)
      next
        case 2
        with init Some e show ?thesis
          by (auto simp: bootstrap_consolidate_failed calls_to_ncds_init_def)
      next
        case 3
        with init Some e show ?thesis
          by (auto simp: bootstrap_device_init_failed calls_to_ncds_init_def)
      next
        case 4
        with init Some e have
          "e \<in> set (calls_to_ncds_init server) \<or> e = Ncds_consolidate \<or>
           e = Ncds_device_init (ncds_init_ret W) \<or>
           e = Nc_verb_verbose ''OF-CONFIG server successfully initialized.'' \<or>
           e \<in> set (snd (poll_loop K (signals W) 0)) \<or> e = Nc_close"
          by (auto simp: bootstrap_succeeded split: if_splits)
        then show ?thesis
          using poll_loop_callee [of e K "signals W" 0]
          by (auto simp: calls_to_ncds_init_def)
      qed
    qed
  qed
qed

lemma bootstrap_constructed:
  assumes "0 \<le> nc_init_ret W" and "ncds_new_transapi_static_ret W = Some server"
  shows "\<exists>tl. snd (bootstrap K W) = calls_to_ncds_init server @ tl \<and>
              (\<forall>e \<in> set tl. callee e \<in> {''ncds_consolidate'', ''ncds_device_init'',
                                           ''nc_verb_error'', ''nc_verb_verbose'',
                                           ''sleep'', ''nc_close''})"
proof -
  consider "ncds_init_ret W < 0"
    | "0 \<le> ncds_init_ret W" "ncds_consolidate_ret W \<noteq> 0"
    | "0 \<le> ncds_init_ret W" "ncds_consolidate_ret W = 0" "ncds_device_init_ret W \<noteq> 0"
    | "0 \<le> ncds_init_ret W" "ncds_consolidate_ret W = 0" "ncds_device_init_ret W = 0"
    by linarith
  then show ?thesis
  proof cases
    case 1
    with assms show ?thesis by (simp add: bootstrap_ncds_init_failed)
  next
    case 2
    with assms show ?thesis by (simp add: bootstrap_consolidate_failed)
  next
    case 3
    with assms show ?thesis by (simp add: bootstrap_device_init_failed)
  next
    case 4
    have "\<forall>e \<in> set (snd (poll_loop K (signals W) 0)).
            callee e \<in> {''ncds_consolidate'', ''ncds_device_init'', ''nc_verb_error'',
                         ''nc_verb_verbose'', ''sleep'', ''nc_close''}"
      using poll_loop_callee [of _ K "signals W" 0] by blast
    with 4 assms show ?thesis by (auto simp: bootstrap_succeeded)
  qed
qed

lemma bootstrap_ignores_unchecked_results:
  "bootstrap K (W\<lparr>ncds_add_model_ret1 := a, ncds_file_set_path_ret := b,
                  ncds_add_model_ret2 := c, ncds_feature_enable_ret1 := d,
                  ncds_feature_enable_ret2 := e\<rparr>) = bootstrap K W"
  unfolding bootstrap_def Let_def
  by (simp cong: if_cong option.case_cong prod.case_cong loop_end.case_cong)

subsection \<open>The runs of main\<close>

lemma calls_append: "calls f (xs @ ys) = calls f xs @ calls f ys"
  by (simp add: calls_def)

lemma in_calls:
  "e \<in> set t \<Longrightarrow> e \<in> set (calls (callee e) t)"
  by (simp add: calls_def)

lemma calls_preamble:
  "calls ''nc_verbosity'' (preamble K W) = [Nc_verbosity (normalize K (verbose_level K W))]"
  by (simp add: calls_def preamble_def install_handlers_def)

lemma calls_preamble_other:
  "f \<notin> {''sigaction'', ''nc_callback_print'', ''nc_verbosity'', ''daemon'', ''openlog''} \<Longrightarrow>
   calls f (preamble K W) = []"
  by (auto simp: calls_def preamble_def install_handlers_def)

lemma calls_preamble_daemon:
  "calls ''daemon'' (preamble K W) = (if foreground (getopt W) then [] else [Daemon 0 0])"
  by (simp add: calls_def preamble_def install_handlers_def)

lemma calls_preamble_openlog:
  "calls ''openlog'' (preamble K W) =
     [Openlog ''netopeer-server''
        (if foreground (getopt W) then [LOG_PID, LOG_PERROR] else [LOG_PID])]"
  by (simp add: calls_def preamble_def install_handlers_def)

lemma from_nc_init_preamble:
  "from_nc_init (preamble K W @ Nc_init fl # t) = Nc_init fl # t"
  by (simp add: from_nc_init_def preamble_def install_handlers_def)

lemma from_nc_init_calls_to_ncds_init:
  "from_nc_init (preamble K W @ calls_to_ncds_init server @ t) = calls_to_ncds_init server @ t"
  by (simp add: calls_to_ncds_init_def from_nc_init_preamble)

lemma bootstrap_calls_none:
  "f \<in> {''fprintf'', ''sigaction'', ''nc_callback_print'', ''nc_verbosity'', ''daemon'', ''openlog''} \<Longrightarrow>
   calls f (snd (bootstrap K W)) = []"
  unfolding calls_def filter_empty_conv using bootstrap_callee [of _ K W] by fastforce

lemma main_usage:
  "\<not> accepted (getopt W) \<Longrightarrow>
   main K W = \<lparr>status = Some 0, trace = snd (print_usage (argv0 W)), os = proc0 W\<rparr>"
  by (simp add: main_def parse_options_rejected print_usage_def)

lemma main_daemon_failed:
  "accepted (getopt W) \<Longrightarrow> \<not> foreground (getopt W) \<Longrightarrow> daemon_ret W \<noteq> 0 \<Longrightarrow>
   main K W =
     \<lparr>status = Some (EXIT_FAILURE K),
      trace = install_handlers K @
              [Nc_callback_print, Nc_verbosity (normalize K (verbose_level K W)),
               Daemon 0 0, Nc_verb_error ''Going to background failed (%s)''],
      os = proc0 W\<rparr>"
  by (simp add: main_def parse_options_accepted verbose_level_def daemon_def)

lemma main_started:
  "starts_up W \<Longrightarrow>
   main K W =
     \<lparr>status = fst (bootstrap K W),
      trace = preamble K W @ snd (bootstrap K W),
      os = (if foreground (getopt W) then proc0 W else daemon 0 0 0 (proc0 W))\<rparr>"
  by (auto simp: main_def starts_up_def parse_options_accepted verbose_level_def preamble_def
           split: prod.splits)

lemma main_calls_nc_verbosity:
  "calls ''nc_verbosity'' (trace (main K W)) =
     (if accepted (getopt W) then [Nc_verbosity (normalize K (verbose_level K W))] else [])"
proof (cases "accepted (getopt W)")
  case False
  then show ?thesis by (simp add: main_usage print_usage_def calls_def)
next
  case True
  show ?thesis
  proof (cases "starts_up W")
    case True
    with \<open>accepted (getopt W)\<close> show ?thesis
      using calls_preamble [of K W] bootstrap_calls_none [of "''nc_verbosity''" K W]
      by (simp add: main_started calls_def)
  next
    case False
    with True have "\<not> foreground (getopt W)" "daemon_ret W \<noteq> 0"
      by (simp_all add: starts_up_def)
    with True show ?thesis
      by (simp add: main_daemon_failed calls_def install_handlers_def)
  qed
qed

lemma main_ignores_unchecked_results:
  "main K (W\<lparr>ncds_add_model_ret1 := a, ncds_file_set_path_ret := b, ncds_add_model_ret2 := c,
             ncds_feature_enable_ret1 := d, ncds_feature_enable_ret2 := e\<rparr>) = main K W"
  unfolding main_def Let_def
  by (simp add: bootstrap_ignores_unchecked_results cong: if_cong sum.case_cong prod.case_cong)

lemma main_ignores_add_model_results:
  "main K (W\<lparr>ncds_add_model_ret1 := a, ncds_add_model_ret2 := b\<rparr>) = main K W"
  using main_ignores_unchecked_results
    [where K = K and W = W and a = a and b = "ncds_file_set_path_ret W" and c = b
       and d = "ncds_feature_enable_ret1 W" and e = "ncds_feature_enable_ret2 W"]
  by simp

subsection \<open>Unfolding a concrete run\<close>

lemmas run_simps =
  main_def bootstrap_def cleanup_def normalize_def signal_handler_def install_handlers_def
  daemon_def print_usage_def linux_def plain_world_def atoi_c_def is_space_def
  x509_yin_def server_yin_def datastore_xml_def CONFDIR_def
  calls_def from_nc_init_def accepted_def foreground_def verbose_args_def verbose_level_def
  starts_up_def termination_signal_def calls_to_ncds_init_def

section \<open>The claims\<close>

text \<open>
  Claim C1 says that the failure of any step of the start-up is logged and leads to the
  cleanup point. When \<open>nc_init\<close> fails, the process logs the error and returns
  \<open>EXIT_FAILURE\<close> without \<open>nc_close\<close>; and when \<open>ncds_add_model\<close> fails, nothing is
  logged and the run goes on to its normal end with status 0.
\<close>

theorem nc_init_failure_skips_cleanup:
  "starts_up (plain_world\<lparr>nc_init_ret := -1\<rparr>) \<and>
   nc_init_ret (plain_world\<lparr>nc_init_ret := -1\<rparr>) < 0 \<and>
   status (main linux (plain_world\<lparr>nc_init_ret := -1\<rparr>)) = Some 1 \<and>
   from_nc_init (trace (main linux (plain_world\<lparr>nc_init_ret := -1\<rparr>))) =
     [Nc_init [NC_INIT_ALL, NC_INIT_MULTILAYER],
      Nc_verb_error ''libnetconf initialization failed.''] \<and>
   calls ''nc_close'' (trace (main linux (plain_world\<lparr>nc_init_ret := -1\<rparr>))) = [] \<and>
   ncds_add_model_ret1 (plain_world\<lparr>ncds_add_model_ret1 := -1\<rparr>) \<noteq> 0 \<and>
   status (main linux (plain_world\<lparr>ncds_add_model_ret1 := -1\<rparr>)) = Some 0 \<and>
   calls ''nc_verb_error'' (trace (main linux (plain_world\<lparr>ncds_add_model_ret1 := -1\<rparr>))) = []"
  by (simp add: run_simps)

text \<open>
  Claim C1, as the code has it, for every run that reaches \<open>nc_init\<close>.
  When \<open>nc_init\<close> fails, the error is logged and the process exits with \<open>EXIT_FAILURE\<close>,
  without \<open>nc_close\<close>. For each of the four steps whose result is tested after that
  (\<open>ncds_new_transapi_static\<close>, \<open>ncds_init\<close>, \<open>ncds_consolidate\<close>, \<open>ncds_device_init\<close>),
  when it is the first to fail the trace from \<open>nc_init\<close> on is: the calls of the sequence
  up to the failing one, each once and in order, then the error message, then
  \<open>nc_close\<close>, and the process exits with \<open>EXIT_FAILURE\<close>; no step is repeated and no
  earlier step is undone. The results of \<open>ncds_add_model\<close>, \<open>ncds_file_set_path\<close> and
  \<open>ncds_feature_enable\<close> are not looked at: the run does not depend on them.
\<close>

theorem checked_step_failure:
  assumes "starts_up W"
  shows "(nc_init_ret W < 0 \<longrightarrow>
            status (main K W) = Some (EXIT_FAILURE K) \<and>
            from_nc_init (trace (main K W)) =
              [Nc_init [NC_INIT_ALL, NC_INIT_MULTILAYER],
               Nc_verb_error ''libnetconf initialization failed.'']) \<and>
         (0 \<le> nc_init_ret W \<longrightarrow> ncds_new_transapi_static_ret W = None \<longrightarrow>
            status (main K W) = Some (EXIT_FAILURE K) \<and>
            from_nc_init (trace (main K W)) =
              [Nc_init [NC_INIT_ALL, NC_INIT_MULTILAYER],
               Ncds_add_model x509_yin,
               Ncds_new_transapi_static server_yin,
               Nc_verb_error ''Creating ietf-netconf-server datastore failed.'',
               Nc_close]) \<and>
         (0 \<le> nc_init_ret W \<longrightarrow> ncds_new_transapi_static_ret W = Some server \<longrightarrow>
          ncds_init_ret W < 0 \<longrightarrow>
            status (main K W) = Some (EXIT_FAILURE K) \<and>
            from_nc_init (trace (main K W)) =
              calls_to_ncds_init server @
              [Nc_verb_error ''Initiating ietf-netconf-server datastore failed (error code %d).'',
               Nc_close]) \<and>
         (0 \<le> nc_init_ret W \<longrightarrow> ncds_new_transapi_static_ret W = Some server \<longrightarrow>
          0 \<le> ncds_init_ret W \<longrightarrow> ncds_consolidate_ret W \<noteq> 0 \<longrightarrow>
            status (main K W) = Some (EXIT_FAILURE K) \<and>
            from_nc_init (trace (main K W)) =
              calls_to_ncds_init server @
              [Ncds_consolidate,
               Nc_verb_error ''Consoidating data models failed.'',
               Nc_close]) \<and>
         (0 \<le> nc_init_ret W \<longrightarrow> ncds_new_transapi_static_ret W = Some server \<longrightarrow>
          0 \<le> ncds_init_ret W \<longrightarrow> ncds_consolidate_ret W = 0 \<longrightarrow>
          ncds_device_init_ret W \<noteq> 0 \<longrightarrow>
            status (main K W) = Some (EXIT_FAILURE K) \<and>
            from_nc_init (trace (main K W)) =
              calls_to_ncds_init server @
              [Ncds_consolidate,
               Ncds_device_init (ncds_init_ret W),
               Nc_verb_error ''Initiating ietf-netconf-server module failed.'',
               Nc_close]) \<and>
         main K (W\<lparr>ncds_add_model_ret1 := a, ncds_file_set_path_ret := b,
                    ncds_add_model_ret2 := c, ncds_feature_enable_ret1 := d,
                    ncds_feature_enable_ret2 := e\<rparr>) = main K W"
proof -
  note m = main_started [OF assms, of K]
  have 0: "nc_init_ret W < 0 \<Longrightarrow>
            status (main K W) = Some (EXIT_FAILURE K) \<and>
            from_nc_init (trace (main K W)) =
              [Nc_init [NC_INIT_ALL, NC_INIT_MULTILAYER],
               Nc_verb_error ''libnetconf initialization failed.'']"
    by (simp add: m bootstrap_nc_init_failed from_nc_init_preamble)
  have 1: "0 \<le> nc_init_ret W \<Longrightarrow> ncds_new_transapi_static_ret W = None \<Longrightarrow>
               status (main K W) = Some (EXIT_FAILURE K) \<and>
               from_nc_init (trace (main K W)) =
                 [Nc_init [NC_INIT_ALL, NC_INIT_MULTILAYER],
                  Ncds_add_model x509_yin,
                  Ncds_new_transapi_static server_yin,
                  Nc_verb_error ''Creating ietf-netconf-server datastore failed.'',
                  Nc_close]"
    by (simp add: m bootstrap_new_failed from_nc_init_preamble)
  have 2: "0 \<le> nc_init_ret W \<Longrightarrow> ncds_new_transapi_static_ret W = Some server \<Longrightarrow>
           ncds_init_ret W < 0 \<Longrightarrow>
                  status (main K W) = Some (EXIT_FAILURE K) \<and>
                  from_nc_init (trace (main K W)) =
                    calls_to_ncds_init server @
                    [Nc_verb_error
                       ''Initiating ietf-netconf-server datastore failed (error code %d).'',
                     Nc_close]"
    by (simp add: m bootstrap_ncds_init_failed from_nc_init_calls_to_ncds_init)
  have 3: "0 \<le> nc_init_ret W \<Longrightarrow> ncds_new_transapi_static_ret W = Some server \<Longrightarrow>
           0 \<le> ncds_init_ret W \<Longrightarrow> ncds_consolidate_ret W \<noteq> 0 \<Longrightarrow>
                  status (main K W) = Some (EXIT_FAILURE K) \<and>
                  from_nc_init (trace (main K W)) =
                    calls_to_ncds_init server @
                    [Ncds_consolidate,
                     Nc_verb_error ''Consoidating data models failed.'',
                     Nc_close]"
    by (simp add: m bootstrap_consolidate_failed from_nc_init_calls_to_ncds_init)
  have 4: "0 \<le> nc_init_ret W \<Longrightarrow> ncds_new_transapi_static_ret W = Some server \<Longrightarrow>
           0 \<le> ncds_init_ret W \<Longrightarrow> ncds_consolidate_ret W = 0 \<Longrightarrow>
           ncds_device_init_ret W \<noteq> 0 \<Longrightarrow>
                  status (main K W) = Some (EXIT_FAILURE K) \<and>
                  from_nc_init (trace (main K W)) =
                    calls_to_ncds_init server @
                    [Ncds_consolidate,
                     Ncds_device_init (ncds_init_ret W),
                     Nc_verb_error ''Initiating ietf-netconf-server module failed.'',
                     Nc_close]"
    by (simp add: m bootstrap_device_init_failed from_nc_init_calls_to_ncds_init)
  from 0 1 2 3 4 main_ignores_unchecked_results
    [where K = K and W = W and a = a and b = b and c = c and d = d and e = e]
  show ?thesis by blast
qed

theorem checked_step_failure_witness:
  "starts_up plain_world \<and>
   nc_init_ret (plain_world\<lparr>nc_init_ret := -1\<rparr>) < 0 \<and>
   status (main linux (plain_world\<lparr>nc_init_ret := -1\<rparr>)) = Some 1 \<and>
   0 \<le> nc_init_ret plain_world \<and>
   ncds_new_transapi_static_ret (plain_world\<lparr>ncds_new_transapi_static_ret := None\<rparr>) = None \<and>
   last (trace (main linux (plain_world\<lparr>ncds_new_transapi_static_ret := None\<rparr>))) = Nc_close \<and>
   ncds_new_transapi_static_ret plain_world = Some 1 \<and>
   ncds_init_ret (plain_world\<lparr>ncds_init_ret := -1\<rparr>) < 0 \<and>
   status (main linux (plain_world\<lparr>ncds_init_ret := -1\<rparr>)) = Some 1 \<and>
   0 \<le> ncds_init_ret plain_world \<and>
   ncds_consolidate_ret (plain_world\<lparr>ncds_consolidate_ret := 1\<rparr>) \<noteq> 0 \<and>
   status (main linux (plain_world\<lparr>ncds_consolidate_ret := 1\<rparr>)) = Some 1 \<and>
   ncds_consolidate_ret plain_world = 0 \<and>
   ncds_device_init_ret (plain_world\<lparr>ncds_device_init_ret := 1\<rparr>) \<noteq> 0 \<and>
   status (main linux (plain_world\<lparr>ncds_device_init_ret := 1\<rparr>)) = Some 1 \<and>
   from_nc_init (trace (main linux (plain_world\<lparr>ncds_device_init_ret := 1\<rparr>))) =
     calls_to_ncds_init 1 @
     [Ncds_consolidate, Ncds_device_init 1,
      Nc_verb_error ''Initiating ietf-netconf-server module failed.'', Nc_close]"
  using checked_step_failure [where W = "plain_world\<lparr>nc_init_ret := -1\<rparr>" and K = linux]
        checked_step_failure
          [where W = "plain_world\<lparr>ncds_new_transapi_static_ret := None\<rparr>" and K = linux]
        checked_step_failure
          [where W = "plain_world\<lparr>ncds_init_ret := -1\<rparr>" and K = linux and server = 1]
        checked_step_failure
          [where W = "plain_world\<lparr>ncds_consolidate_ret := 1\<rparr>" and K = linux and server = 1]
        checked_step_failure
          [where W = "plain_world\<lparr>ncds_device_init_ret := 1\<rparr>" and K = linux and server = 1]
  by (simp add: run_simps)

text \<open>
  Claim C2. For a signal that the handler names (SIGINT, SIGTERM, SIGQUIT, SIGABRT,
  SIGKILL): with the flag at 0 the handler returns and leaves the flag at 1; with the
  flag not 0 it ends the process with \<open>EXIT_FAILURE\<close>; so two such signals in a row,
  from the flag at 0, end the process with \<open>EXIT_FAILURE\<close>. Any other signal ends the
  process with \<open>EXIT_FAILURE\<close>, whatever the flag.
\<close>

theorem signal_handler_two_strikes:
  "(termination_signal K sig \<longrightarrow>
      fst (signal_handler K sig 0) = Inr 1 \<and>
      (mainloop \<noteq> 0 \<longrightarrow> fst (signal_handler K sig mainloop) = Inl (EXIT_FAILURE K)) \<and>
      (termination_signal K sig' \<longrightarrow> fst (deliver K [sig, sig'] 0) = Inl (EXIT_FAILURE K))) \<and>
   (\<not> termination_signal K sig \<longrightarrow>
      fst (signal_handler K sig mainloop) = Inl (EXIT_FAILURE K))"
  by (auto simp: signal_handler_def termination_signal_def)

theorem signal_handler_two_strikes_witness:
  "termination_signal linux 2 \<and>
   fst (signal_handler linux 2 0) = Inr 1 \<and>
   (1::int) \<noteq> 0 \<and>
   fst (signal_handler linux 2 1) = Inl 1 \<and>
   termination_signal linux 15 \<and>
   fst (deliver linux [2, 15] 0) = Inl 1 \<and>
   \<not> termination_signal linux 1 \<and>
   fst (signal_handler linux 1 0) = Inl 1"
  using signal_handler_two_strikes [of linux 2 1 15]
        signal_handler_two_strikes [of linux 1 0 15]
  by (simp add: termination_signal_def linux_def)

text \<open>
  Claim C3 says that daemonizing leaves the working directory unchanged. \<open>main\<close> calls
  \<open>daemon(0, 0)\<close>, and a first argument of 0 asks for the change to the root directory:
  the run without options that starts in /home/ofc ends in /.
\<close>

theorem daemon_changes_working_directory:
  "accepted (getopt plain_world) \<and> \<not> foreground (getopt plain_world) \<and>
   daemon_ret plain_world = 0 \<and>
   cwd (proc0 plain_world) = ''/home/ofc'' \<and>
   cwd (os (main linux plain_world)) = ''/''"
  by (simp add: run_simps)

text \<open>
  Claim C3, as the code has it. On an accepted command line:
  without \<open>-f\<close> and with \<open>daemon(0, 0)\<close> succeeding, the process has no controlling
  terminal, its working directory is the root directory and its standard streams are
  /dev/null; \<open>daemon\<close> is called once and the log is opened with \<open>LOG_PID\<close> alone, so
  that messages go to syslog only.
  With \<open>-f\<close>, \<open>daemon\<close> is not called, the process state is untouched and the log is
  opened with \<open>LOG_PID | LOG_PERROR\<close>, so that messages go to syslog and to standard error.
  Without \<open>-f\<close> and with \<open>daemon\<close> failing, the process logs the failure and exits at
  once with \<open>EXIT_FAILURE\<close>: \<open>daemon\<close> is called once, and \<open>openlog\<close>, \<open>nc_init\<close> and
  \<open>nc_close\<close> are not called.
\<close>

theorem daemonize_behaviour:
  assumes "accepted (getopt W)"
  shows "(\<not> foreground (getopt W) \<longrightarrow> daemon_ret W = 0 \<longrightarrow>
            os (main K W) = \<lparr>cwd = ''/'', ctty = False, stdio_null = True\<rparr> \<and>
            calls ''daemon'' (trace (main K W)) = [Daemon 0 0] \<and>
            calls ''openlog'' (trace (main K W)) = [Openlog ''netopeer-server'' [LOG_PID]]) \<and>
         (foreground (getopt W) \<longrightarrow>
            os (main K W) = proc0 W \<and>
            calls ''daemon'' (trace (main K W)) = [] \<and>
            calls ''openlog'' (trace (main K W)) =
              [Openlog ''netopeer-server'' [LOG_PID, LOG_PERROR]]) \<and>
         (\<not> foreground (getopt W) \<longrightarrow> daemon_ret W \<noteq> 0 \<longrightarrow>
            status (main K W) = Some (EXIT_FAILURE K) \<and>
            calls ''daemon'' (trace (main K W)) = [Daemon 0 0] \<and>
            last (trace (main K W)) = Nc_verb_error ''Going to background failed (%s)'' \<and>
            calls ''openlog'' (trace (main K W)) = [] \<and>
            calls ''nc_init'' (trace (main K W)) = [] \<and>
            calls ''nc_close'' (trace (main K W)) = [])"
proof (intro conjI impI)
  assume bg: "\<not> foreground (getopt W)" and ok: "daemon_ret W = 0"
  with assms have up: "starts_up W" by (simp add: starts_up_def)
  from bg show "os (main K W) = \<lparr>cwd = ''/'', ctty = False, stdio_null = True\<rparr>"
    by (simp add: main_started [OF up] daemon_def)
  from bg show "calls ''daemon'' (trace (main K W)) = [Daemon 0 0]"
    by (simp add: main_started [OF up] calls_append calls_preamble_daemon bootstrap_calls_none)
  from bg show "calls ''openlog'' (trace (main K W)) = [Openlog ''netopeer-server'' [LOG_PID]]"
    by (simp add: main_started [OF up] calls_append calls_preamble_openlog bootstrap_calls_none)
next
  assume fg: "foreground (getopt W)"
  with assms have up: "starts_up W" by (simp add: starts_up_def)
  from fg show "os (main K W) = proc0 W"
    by (simp add: main_started [OF up])
  from fg show "calls ''daemon'' (trace (main K W)) = []"
    by (simp add: main_started [OF up] calls_append calls_preamble_daemon bootstrap_calls_none)
  from fg show "calls ''openlog'' (trace (main K W)) =
      [Openlog ''netopeer-server'' [LOG_PID, LOG_PERROR]]"
    by (simp add: main_started [OF up] calls_append calls_preamble_openlog bootstrap_calls_none)
next
  assume bg: "\<not> foreground (getopt W)" and bad: "daemon_ret W \<noteq> 0"
  note m = main_daemon_failed [OF assms bg bad, of K]
  show "status (main K W) = Some (EXIT_FAILURE K)" by (simp add: m)
  show "calls ''daemon'' (trace (main K W)) = [Daemon 0 0]"
    by (simp add: m calls_def install_handlers_def)
  show "last (trace (main K W)) = Nc_verb_error ''Going to background failed (%s)''"
    by (simp add: m)
  show "calls ''openlog'' (trace (main K W)) = []"
    by (simp add: m calls_def install_handlers_def)
  show "calls ''nc_init'' (trace (main K W)) = []"
    by (simp add: m calls_def install_handlers_def)
  show "calls ''nc_close'' (trace (main K W)) = []"
    by (simp add: m calls_def install_handlers_def)
qed

theorem daemonize_behaviour_witness:
  "accepted (getopt plain_world) \<and> \<not> foreground (getopt plain_world) \<and>
   daemon_ret plain_world = 0 \<and>
   os (main linux plain_world) = \<lparr>cwd = ''/'', ctty = False, stdio_null = True\<rparr> \<and>
   accepted (getopt (plain_world\<lparr>getopt := [(CHR ''f'', [])]\<rparr>)) \<and>
   foreground (getopt (plain_world\<lparr>getopt := [(CHR ''f'', [])]\<rparr>)) \<and>
   os (main linux (plain_world\<lparr>getopt := [(CHR ''f'', [])]\<rparr>)) =
     \<lparr>cwd = ''/home/ofc'', ctty = True, stdio_null = False\<rparr> \<and>
   calls ''openlog'' (trace (main linux (plain_world\<lparr>getopt := [(CHR ''f'', [])]\<rparr>))) =
     [Openlog ''netopeer-server'' [LOG_PID, LOG_PERROR]] \<and>
   accepted (getopt (plain_world\<lparr>daemon_ret := -1\<rparr>)) \<and>
   \<not> foreground (getopt (plain_world\<lparr>daemon_ret := -1\<rparr>)) \<and>
   daemon_ret (plain_world\<lparr>daemon_ret := -1\<rparr>) \<noteq> 0 \<and>
   status (main linux (plain_world\<lparr>daemon_ret := -1\<rparr>)) = Some 1 \<and>
   calls ''nc_init'' (trace (main linux (plain_world\<lparr>daemon_ret := -1\<rparr>))) = []"
  using daemonize_behaviour [of plain_world linux]
        daemonize_behaviour [of "plain_world\<lparr>getopt := [(CHR ''f'', [])]\<rparr>" linux]
        daemonize_behaviour [of "plain_world\<lparr>daemon_ret := -1\<rparr>" linux]
  by (simp add: run_simps)

text \<open>
  Claim C4. Whatever the command line and the environment, every call of \<open>nc_verbosity\<close>
  has an argument between \<open>NC_VERB_ERROR\<close> and \<open>NC_VERB_DEBUG\<close>. When the option loop
  comes to its end (every option is \<open>-f\<close> or \<open>-v\<close>) the call is made exactly once, with
  the verbosity clamped into that range; the argument of \<open>-v\<close> may be any string and
  \<open>atoi\<close> any function.
\<close>

theorem flag_verbosity_clamped:
  assumes "NC_VERB_ERROR K \<le> NC_VERB_DEBUG K"
  shows "(\<forall>x. Nc_verbosity x \<in> set (trace (main K W)) \<longrightarrow>
              NC_VERB_ERROR K \<le> x \<and> x \<le> NC_VERB_DEBUG K) \<and>
         (accepted (getopt W) \<longrightarrow>
            calls ''nc_verbosity'' (trace (main K W)) =
              [Nc_verbosity (max (NC_VERB_ERROR K) (min (NC_VERB_DEBUG K) (verbose_level K W)))])"
proof (intro conjI allI impI)
  fix x
  assume "Nc_verbosity x \<in> set (trace (main K W))"
  then have "Nc_verbosity x \<in> set (calls ''nc_verbosity'' (trace (main K W)))"
    using in_calls [of "Nc_verbosity x"] by simp
  then have "x = normalize K (verbose_level K W)"
    by (simp add: main_calls_nc_verbosity split: if_splits)
  with assms show "NC_VERB_ERROR K \<le> x" and "x \<le> NC_VERB_DEBUG K"
    by (simp_all add: normalize_def)
next
  assume "accepted (getopt W)"
  with assms show "calls ''nc_verbosity'' (trace (main K W)) =
      [Nc_verbosity (max (NC_VERB_ERROR K) (min (NC_VERB_DEBUG K) (verbose_level K W)))]"
    by (simp add: main_calls_nc_verbosity normalize_clamp)
qed

theorem flag_verbosity_clamped_witness:
  "NC_VERB_ERROR linux \<le> NC_VERB_DEBUG linux \<and>
   accepted (getopt (plain_world\<lparr>getopt := [(CHR ''v'', ''7''), (CHR ''f'', [])]\<rparr>)) \<and>
   Nc_verbosity 3 \<in> set (trace (main linux (plain_world\<lparr>getopt := [(CHR ''v'', ''7''), (CHR ''f'', [])]\<rparr>))) \<and>
   calls ''nc_verbosity''
     (trace (main linux (plain_world\<lparr>getopt := [(CHR ''v'', ''7''), (CHR ''f'', [])]\<rparr>))) =
     [Nc_verbosity 3]"
proof -
  have h: "NC_VERB_ERROR linux \<le> NC_VERB_DEBUG linux" by (simp add: linux_def)
  show ?thesis
    using h flag_verbosity_clamped [OF h, of "plain_world\<lparr>getopt := [(CHR ''v'', ''7''), (CHR ''f'', [])]\<rparr>"]
    by (simp add: run_simps)
qed

text \<open>
  Claim C5. When the process reaches the start-up of libnetconf, \<open>nc_init\<close> succeeds and
  \<open>ncds_new_transapi_static\<close> returns NULL, the process exits with \<open>EXIT_FAILURE\<close>, the
  one error logged is that of the datastore creation, and \<open>ncds_init\<close>,
  \<open>ncds_consolidate\<close> and \<open>ncds_device_init\<close> are never called (nor is the poll loop
  entered).
\<close>

theorem datastore_construction_failure:
  assumes "starts_up W" and "0 \<le> nc_init_ret W" and "ncds_new_transapi_static_ret W = None"
  shows "status (main K W) = Some (EXIT_FAILURE K) \<and>
         calls ''ncds_new_transapi_static'' (trace (main K W)) =
           [Ncds_new_transapi_static server_yin] \<and>
         calls ''nc_verb_error'' (trace (main K W)) =
           [Nc_verb_error ''Creating ietf-netconf-server datastore failed.''] \<and>
         calls ''ncds_init'' (trace (main K W)) = [] \<and>
         calls ''ncds_consolidate'' (trace (main K W)) = [] \<and>
         calls ''ncds_device_init'' (trace (main K W)) = [] \<and>
         calls ''sleep'' (trace (main K W)) = []"
  using assms
  by (simp add: main_started bootstrap_new_failed calls_append calls_preamble_other)
     (simp add: calls_def)

theorem datastore_construction_failure_witness:
  "starts_up (plain_world\<lparr>ncds_new_transapi_static_ret := None\<rparr>) \<and>
   0 \<le> nc_init_ret (plain_world\<lparr>ncds_new_transapi_static_ret := None\<rparr>) \<and>
   ncds_new_transapi_static_ret (plain_world\<lparr>ncds_new_transapi_static_ret := None\<rparr>) = None \<and>
   status (main linux (plain_world\<lparr>ncds_new_transapi_static_ret := None\<rparr>)) = Some 1 \<and>
   calls ''ncds_init'' (trace (main linux (plain_world\<lparr>ncds_new_transapi_static_ret := None\<rparr>))) = []"
  using datastore_construction_failure
    [of "plain_world\<lparr>ncds_new_transapi_static_ret := None\<rparr>" linux]
  by (simp add: run_simps)

text \<open>
  Claim C6 says that \<open>-h\<close> anywhere in the argument list gives the usage text. In the
  argument list \<open>-f -v -h\<close> the word \<open>-h\<close> is the argument that \<open>-v\<close> requires:
  \<open>getopt_long\<close> reports \<open>f\<close> and \<open>v\<close> only, nothing is written to standard output
  and the server starts.
\<close>

theorem help_word_taken_as_verbose_argument:
  "getopt_long [''-f'', ''-v'', ''-h''] = [(CHR ''f'', []), (CHR ''v'', ''-h'')] \<and>
   calls ''fprintf''
     (trace (main linux (plain_world\<lparr>getopt := getopt_long [''-f'', ''-v'', ''-h'']\<rparr>))) = [] \<and>
   calls ''nc_init''
     (trace (main linux (plain_world\<lparr>getopt := getopt_long [''-f'', ''-v'', ''-h'']\<rparr>))) =
     [Nc_init [NC_INIT_ALL, NC_INIT_MULTILAYER]] \<and>
   calls ''ncds_device_init''
     (trace (main linux (plain_world\<lparr>getopt := getopt_long [''-f'', ''-v'', ''-h'']\<rparr>))) =
     [Ncds_device_init 1]"
  by (simp add: getopt_long.simps long_option_def run_simps)

text \<open>
  Claim C6, as the code has it. When \<open>getopt_long\<close> reports \<open>h\<close> (for \<open>-h\<close> or
  \<open>--help\<close>) anywhere on the command line, the process writes the four lines of the
  usage text and exits with status 0; it makes no other call, so none of \<open>nc_init\<close> or
  later, and the operating system state is untouched. This holds whatever the other
  options are. In particular it holds for every argument list written with the plain
  forms of the options in which \<open>-h\<close> or \<open>--help\<close> stands where an option is expected,
  that is, not as the level word of a \<open>-v\<close>.
\<close>

theorem help_exits_before_bootstrap:
  "(CHR ''h'' \<in> fst ` set (getopt W) \<longrightarrow>
      status (main K W) = Some 0 \<and>
      trace (main K W) =
        [Fprintf_stdout (''Usage: '' @ argv0 W @ '' [-fh] [-v level]\<newline>''),
         Fprintf_stdout '' -f,--foreground        run in foreground\<newline>'',
         Fprintf_stdout '' -h,--help              display help\<newline>'',
         Fprintf_stdout '' -v,--verbose level     verbose output level\<newline>''] \<and>
      (\<forall>e \<in> set (trace (main K W)). callee e = ''fprintf'') \<and>
      os (main K W) = proc0 W) \<and>
   (help_in_option_position argv \<longrightarrow>
      CHR ''h'' \<in> fst ` set (getopt_long argv) \<and>
      status (main K (W\<lparr>getopt := getopt_long argv\<rparr>)) = Some 0 \<and>
      trace (main K (W\<lparr>getopt := getopt_long argv\<rparr>)) =
        [Fprintf_stdout (''Usage: '' @ argv0 W @ '' [-fh] [-v level]\<newline>''),
         Fprintf_stdout '' -f,--foreground        run in foreground\<newline>'',
         Fprintf_stdout '' -h,--help              display help\<newline>'',
         Fprintf_stdout '' -v,--verbose level     verbose output level\<newline>''])"
proof (intro conjI impI)
  assume "CHR ''h'' \<in> fst ` set (getopt W)"
  then have r: "\<not> accepted (getopt W)" by (fastforce simp: accepted_def)
  show "status (main K W) = Some 0" by (simp add: main_usage [OF r])
  show "trace (main K W) =
        [Fprintf_stdout (''Usage: '' @ argv0 W @ '' [-fh] [-v level]\<newline>''),
         Fprintf_stdout '' -f,--foreground        run in foreground\<newline>'',
         Fprintf_stdout '' -h,--help              display help\<newline>'',
         Fprintf_stdout '' -v,--verbose level     verbose output level\<newline>'']"
    by (simp add: main_usage [OF r] print_usage_def)
  show "\<forall>e \<in> set (trace (main K W)). callee e = ''fprintf''"
    by (simp add: main_usage [OF r] print_usage_def)
  show "os (main K W) = proc0 W" by (simp add: main_usage [OF r])
next
  assume "help_in_option_position argv"
  then show h: "CHR ''h'' \<in> fst ` set (getopt_long argv)" by (rule help_reported)
  then have r: "\<not> accepted (getopt (W\<lparr>getopt := getopt_long argv\<rparr>))"
    by (fastforce simp: accepted_def)
  show "status (main K (W\<lparr>getopt := getopt_long argv\<rparr>)) = Some 0"
    by (simp add: main_usage [OF r])
  show "trace (main K (W\<lparr>getopt := getopt_long argv\<rparr>)) =
        [Fprintf_stdout (''Usage: '' @ argv0 W @ '' [-fh] [-v level]\<newline>''),
         Fprintf_stdout '' -f,--foreground        run in foreground\<newline>'',
         Fprintf_stdout '' -h,--help              display help\<newline>'',
         Fprintf_stdout '' -v,--verbose level     verbose output level\<newline>'']"
    by (simp add: main_usage [OF r] print_usage_def)
qed

theorem help_exits_before_bootstrap_witness:
  "CHR ''h'' \<in> fst ` set (getopt (plain_world\<lparr>getopt := [(CHR ''f'', []), (CHR ''v'', ''2''), (CHR ''h'', [])]\<rparr>)) \<and>
   status (main linux (plain_world\<lparr>getopt := [(CHR ''f'', []), (CHR ''v'', ''2''), (CHR ''h'', [])]\<rparr>)) = Some 0 \<and>
   calls ''nc_init'' (trace (main linux (plain_world\<lparr>getopt := [(CHR ''f'', []), (CHR ''v'', ''2''), (CHR ''h'', [])]\<rparr>))) = [] \<and>
   help_in_option_position [''--foreground'', ''-v'', ''-h'', ''--help''] \<and>
   getopt_long [''--foreground'', ''-v'', ''-h'', ''--help''] =
     [(CHR ''f'', []), (CHR ''v'', ''-h''), (CHR ''h'', [])] \<and>
   status (main linux (plain_world\<lparr>getopt := getopt_long [''--foreground'', ''-v'', ''-h'', ''--help'']\<rparr>)) = Some 0 \<and>
   calls ''nc_init'' (trace (main linux (plain_world\<lparr>getopt := getopt_long [''--foreground'', ''-v'', ''-h'', ''--help'']\<rparr>))) = []"
  using help_exits_before_bootstrap
    [where W = "plain_world\<lparr>getopt := [(CHR ''f'', []), (CHR ''v'', ''2''), (CHR ''h'', [])]\<rparr>"
       and K = linux and argv = "[''--foreground'', ''-v'', ''-h'', ''--help'']"]
    help_exits_before_bootstrap
    [where W = plain_world and K = linux and argv = "[''--foreground'', ''-v'', ''-h'', ''--help'']"]
  by (simp add: getopt_long.simps long_option_def run_simps)

text \<open>
  Claim C7. The loop tests the flag before it sleeps: found set, the loop is left without
  any sleep. While nothing arrives the loop sleeps one second per turn and is not left.
  When a termination signal arrives in the turn after \<open>n\<close> quiet ones, the loop is left at
  the next test: the trace has one more sleep when the signal came between the test and
  the sleep, and none after the signal when it came during the sleep; what the
  environment would do later (\<open>rest\<close>) plays no part. In general, as soon as any signal
  arrives in a turn, the loop does not go on for ever and that turn's sleep is the last.
\<close>

theorem poll_loop_exit_latency:
  "(mainloop \<noteq> 0 \<longrightarrow> poll_loop K sched mainloop = (Loop_left, [])) \<and>
   poll_loop K (replicate n ([], [])) 0 = (Never_left, replicate n (Sleep 1)) \<and>
   (termination_signal K sig \<longrightarrow>
      poll_loop K (replicate n ([], []) @ ([sig], []) # rest) 0 =
        (Loop_left,
         replicate n (Sleep 1) @ [Nc_verb_verbose ''Signal %d received.'', Sleep 1]) \<and>
      poll_loop K (replicate n ([], []) @ ([], [sig]) # rest) 0 =
        (Loop_left,
         replicate n (Sleep 1) @ [Sleep 1, Nc_verb_verbose ''Signal %d received.''])) \<and>
   (ahead @ asleep \<noteq> [] \<longrightarrow>
      fst (poll_loop K (replicate n ([], []) @ (ahead, asleep) # rest) 0) \<noteq> Never_left \<and>
      count_list (snd (poll_loop K (replicate n ([], []) @ (ahead, asleep) # rest) 0)) (Sleep 1)
        \<le> n + 1)"
proof (intro conjI impI)
  assume "mainloop \<noteq> 0"
  then show "poll_loop K sched mainloop = (Loop_left, [])" by (rule poll_loop_flag_set)
next
  show "poll_loop K (replicate n ([], [])) 0 = (Never_left, replicate n (Sleep 1))"
    using poll_loop_quiet_turns [of K n "[]"] by simp
next
  assume s: "termination_signal K sig"
  have "poll_loop K (([sig], []) # rest) 0 =
          (Loop_left, [Nc_verb_verbose ''Signal %d received.'', Sleep 1])"
    by (simp add: signal_handler_first [OF s] poll_loop_flag_set)
  then show "poll_loop K (replicate n ([], []) @ ([sig], []) # rest) 0 =
        (Loop_left,
         replicate n (Sleep 1) @ [Nc_verb_verbose ''Signal %d received.'', Sleep 1])"
    by (simp add: poll_loop_quiet_turns)
next
  assume s: "termination_signal K sig"
  have "poll_loop K (([], [sig]) # rest) 0 =
          (Loop_left, [Sleep 1, Nc_verb_verbose ''Signal %d received.''])"
    by (simp add: signal_handler_first [OF s] poll_loop_flag_set)
  then show "poll_loop K (replicate n ([], []) @ ([], [sig]) # rest) 0 =
        (Loop_left,
         replicate n (Sleep 1) @ [Sleep 1, Nc_verb_verbose ''Signal %d received.''])"
    by (simp add: poll_loop_quiet_turns)
next
  assume "ahead @ asleep \<noteq> []"
  then have "ahead \<noteq> [] \<or> asleep \<noteq> []" by simp
  from poll_loop_latency [OF this, of K n rest]
  show "fst (poll_loop K (replicate n ([], []) @ (ahead, asleep) # rest) 0) \<noteq> Never_left"
    and "count_list (snd (poll_loop K (replicate n ([], []) @ (ahead, asleep) # rest) 0))
           (Sleep 1) \<le> n + 1"
    by simp_all
qed

theorem poll_loop_exit_latency_witness:
  "(1::int) \<noteq> 0 \<and>
   poll_loop linux [([], []), ([], [])] 1 = (Loop_left, []) \<and>
   termination_signal linux 15 \<and>
   poll_loop linux (replicate 2 ([], []) @ ([15], []) # [([], []), ([], [])]) 0 =
     (Loop_left, [Sleep 1, Sleep 1, Nc_verb_verbose ''Signal %d received.'', Sleep 1]) \<and>
   poll_loop linux (replicate 2 ([], []) @ ([], [15]) # [([], []), ([], [])]) 0 =
     (Loop_left, [Sleep 1, Sleep 1, Sleep 1, Nc_verb_verbose ''Signal %d received.'']) \<and>
   [15] @ [2] \<noteq> ([] :: int list) \<and>
   fst (poll_loop linux (replicate 2 ([], []) @ ([15], [2]) # [([], []), ([], [])]) 0) = Exited 1 \<and>
   count_list (snd (poll_loop linux (replicate 2 ([], []) @ ([15], [2]) # [([], []), ([], [])]) 0))
     (Sleep 1) = 3"
  using poll_loop_exit_latency
    [of 1 linux "[([], []), ([], [])]" 2 15 "[([], []), ([], [])]" "[15]" "[2]"]
  by (simp add: termination_signal_def linux_def numeral_2_eq_2 signal_handler_def)

text \<open>
  Claim C8. When no \<open>-v\<close> is given and the environment variable is set to \<open>s\<close>,
  whatever the string \<open>s\<close> and whatever \<open>atoi\<close> makes of it, the one call of
  \<open>nc_verbosity\<close> gets \<open>atoi s\<close> clamped between \<open>NC_VERB_ERROR\<close> and
  \<open>NC_VERB_DEBUG\<close>: the value itself when it lies in that range, the nearer bound
  otherwise.
\<close>

theorem env_verbosity_clamped:
  assumes "NC_VERB_ERROR K \<le> NC_VERB_DEBUG K"
    and "accepted (getopt W)"
    and "verbose_args (getopt W) = []"
    and "getenv_verbose W = Some s"
  shows "calls ''nc_verbosity'' (trace (main K W)) =
           [Nc_verbosity (max (NC_VERB_ERROR K) (min (NC_VERB_DEBUG K) (atoi K s)))] \<and>
         NC_VERB_ERROR K \<le> max (NC_VERB_ERROR K) (min (NC_VERB_DEBUG K) (atoi K s)) \<and>
         max (NC_VERB_ERROR K) (min (NC_VERB_DEBUG K) (atoi K s)) \<le> NC_VERB_DEBUG K"
  using assms by (simp add: main_calls_nc_verbosity verbose_level_def normalize_clamp)

theorem env_verbosity_clamped_witness:
  "NC_VERB_ERROR linux \<le> NC_VERB_DEBUG linux \<and>
   accepted (getopt plain_world) \<and>
   verbose_args (getopt plain_world) = [] \<and>
   getenv_verbose (plain_world\<lparr>getenv_verbose := Some ''2''\<rparr>) = Some ''2'' \<and>
   calls ''nc_verbosity'' (trace (main linux (plain_world\<lparr>getenv_verbose := Some ''2''\<rparr>))) =
     [Nc_verbosity 2] \<and>
   getenv_verbose (plain_world\<lparr>getenv_verbose := Some ''99''\<rparr>) = Some ''99'' \<and>
   calls ''nc_verbosity'' (trace (main linux (plain_world\<lparr>getenv_verbose := Some ''99''\<rparr>))) =
     [Nc_verbosity 3] \<and>
   getenv_verbose (plain_world\<lparr>getenv_verbose := Some ''-12 dB''\<rparr>) = Some ''-12 dB'' \<and>
   calls ''nc_verbosity'' (trace (main linux (plain_world\<lparr>getenv_verbose := Some ''-12 dB''\<rparr>))) =
     [Nc_verbosity 0] \<and>
   getenv_verbose (plain_world\<lparr>getenv_verbose := Some ''loud''\<rparr>) = Some ''loud'' \<and>
   calls ''nc_verbosity'' (trace (main linux (plain_world\<lparr>getenv_verbose := Some ''loud''\<rparr>))) =
     [Nc_verbosity 0]"
proof -
  have h: "NC_VERB_ERROR linux \<le> NC_VERB_DEBUG linux" by (simp add: linux_def)
  show ?thesis
    using h
      env_verbosity_clamped [OF h, of "plain_world\<lparr>getenv_verbose := Some ''2''\<rparr>" "''2''"]
      env_verbosity_clamped [OF h, of "plain_world\<lparr>getenv_verbose := Some ''99''\<rparr>" "''99''"]
      env_verbosity_clamped
        [OF h, of "plain_world\<lparr>getenv_verbose := Some ''-12 dB''\<rparr>" "''-12 dB''"]
      env_verbosity_clamped
        [OF h, of "plain_world\<lparr>getenv_verbose := Some ''loud''\<rparr>" "''loud''"]
    by (simp add: run_simps)
qed

text \<open>
  Claim C9. What \<open>ncds_add_model\<close> returns, at either call, changes nothing in the run:
  neither the calls made nor the exit status. In every run that gets past the
  construction of the datastore (the second call site lies behind it), \<open>ncds_add_model\<close>
  is called exactly twice, both times with the path of the certificate-to-name model, the
  first time before \<open>ncds_new_transapi_static\<close> and the second time after
  \<open>ncds_file_set_path\<close>.
\<close>

theorem add_model_twice_ignored:
  "main K (W\<lparr>ncds_add_model_ret1 := a, ncds_add_model_ret2 := b\<rparr>) = main K W \<and>
   (starts_up W \<longrightarrow> 0 \<le> nc_init_ret W \<longrightarrow> ncds_new_transapi_static_ret W = Some server \<longrightarrow>
      calls ''ncds_add_model'' (trace (main K W)) =
        [Ncds_add_model x509_yin, Ncds_add_model x509_yin] \<and>
      filter (\<lambda>e. callee e = ''ncds_add_model'' \<or> callee e = ''ncds_new_transapi_static'' \<or>
                  callee e = ''ncds_file_set_path'') (trace (main K W)) =
        [Ncds_add_model x509_yin, Ncds_new_transapi_static server_yin,
         Ncds_file_set_path server datastore_xml, Ncds_add_model x509_yin])"
proof (intro conjI impI)
  show "main K (W\<lparr>ncds_add_model_ret1 := a, ncds_add_model_ret2 := b\<rparr>) = main K W"
    by (rule main_ignores_add_model_results)
next
  assume up: "starts_up W" and ok: "0 \<le> nc_init_ret W" "ncds_new_transapi_static_ret W = Some server"
  from bootstrap_constructed [OF ok, of K] obtain tl
    where t: "snd (bootstrap K W) = calls_to_ncds_init server @ tl"
      and tl: "\<forall>e \<in> set tl. callee e \<in> {''ncds_consolidate'', ''ncds_device_init'',
                 ''nc_verb_error'', ''nc_verb_verbose'', ''sleep'', ''nc_close''}"
    by blast
  have tr: "trace (main K W) = preamble K W @ calls_to_ncds_init server @ tl"
    using up t by (simp add: main_started)
  have f1: "filter (\<lambda>e. callee e = ''ncds_add_model'') tl = []"
    unfolding filter_empty_conv using tl by fastforce
  have f2: "filter (\<lambda>e. callee e = ''ncds_add_model'' \<or> callee e = ''ncds_new_transapi_static'' \<or>
                  callee e = ''ncds_file_set_path'') tl = []"
    unfolding filter_empty_conv using tl by fastforce
  show "calls ''ncds_add_model'' (trace (main K W)) =
        [Ncds_add_model x509_yin, Ncds_add_model x509_yin]"
    using f1 by (simp add: tr calls_def preamble_def install_handlers_def calls_to_ncds_init_def)
  show "filter (\<lambda>e. callee e = ''ncds_add_model'' \<or> callee e = ''ncds_new_transapi_static'' \<or>
                  callee e = ''ncds_file_set_path'') (trace (main K W)) =
        [Ncds_add_model x509_yin, Ncds_new_transapi_static server_yin,
         Ncds_file_set_path server datastore_xml, Ncds_add_model x509_yin]"
    using f2 by (simp add: tr preamble_def install_handlers_def calls_to_ncds_init_def)
qed

theorem add_model_twice_ignored_witness:
  "main linux (plain_world\<lparr>ncds_add_model_ret1 := -1, ncds_add_model_ret2 := -1\<rparr>) =
     main linux plain_world \<and>
   starts_up plain_world \<and> 0 \<le> nc_init_ret plain_world \<and>
   ncds_new_transapi_static_ret plain_world = Some 1 \<and>
   calls ''ncds_add_model'' (trace (main linux plain_world)) =
     [Ncds_add_model ''/etc/ofconfig//ietf-netconf-server/ietf-x509-cert-to-name.yin'',
      Ncds_add_model ''/etc/ofconfig//ietf-netconf-server/ietf-x509-cert-to-name.yin'']"
  using add_model_twice_ignored
    [where K = linux and W = plain_world and a = "-1" and b = "-1" and server = 1]
  by (simp add: run_simps)

text \<open>
  Claim C10. When the command line is accepted and has at least one \<open>-v\<close>, the option
  loop ends with \<open>verbose\<close> equal to \<open>atoi\<close> of the argument of the last \<open>-v\<close>,
  whatever value \<open>v0\<close> the environment gave it before; and the call of \<open>nc_verbosity\<close>
  gets the normalized value of that number, whatever the environment variable \<open>env\<close> is.
\<close>

theorem last_verbose_flag_wins:
  assumes "accepted (getopt W)" and "verbose_args (getopt W) \<noteq> []"
  shows "parse_options K (argv0 W) (getopt W) (1, v0) =
           Inr (if foreground (getopt W) then 0 else 1,
                atoi K (last (verbose_args (getopt W)))) \<and>
         calls ''nc_verbosity'' (trace (main K (W\<lparr>getenv_verbose := env\<rparr>))) =
           [Nc_verbosity (normalize K (atoi K (last (verbose_args (getopt W)))))]"
  using assms by (simp add: parse_options_accepted main_calls_nc_verbosity verbose_level_def)

theorem last_verbose_flag_wins_witness:
  "accepted (getopt (plain_world\<lparr>getopt := [(CHR ''v'', ''3''), (CHR ''f'', []), (CHR ''v'', ''1'')]\<rparr>)) \<and>
   verbose_args (getopt (plain_world\<lparr>getopt := [(CHR ''v'', ''3''), (CHR ''f'', []), (CHR ''v'', ''1'')]\<rparr>)) \<noteq> [] \<and>
   calls ''nc_verbosity''
     (trace (main linux (plain_world\<lparr>getopt := [(CHR ''v'', ''3''), (CHR ''f'', []), (CHR ''v'', ''1'')],
                                      getenv_verbose := Some ''2''\<rparr>))) =
     [Nc_verbosity 1]"
  using last_verbose_flag_wins
    [of "plain_world\<lparr>getopt := [(CHR ''v'', ''3''), (CHR ''f'', []), (CHR ''v'', ''1'')]\<rparr>"
        linux 0 "Some ''2''"]
  by (simp add: run_simps)

end
